theory Spec2Isabelle
  imports Main
begin

section \<open>Strings of the page script\<close>

text \<open>
  The page \<^verbatim>\<open>Files\<close> (in \<^verbatim>\<open>src/pages/Auth.tsx\<close>) works on JavaScript strings.
  They are modelled as \<^typ>\<open>string\<close>, one \<^typ>\<open>char\<close> per code unit, which covers the
  code units below 256 (ASCII and the Latin-1 supplement). A string is truthy in
  a JavaScript condition exactly when it is not empty.

  \<open>toLowerCase\<close> on these code units maps \<open>A\<close> .. \<open>Z\<close> to \<open>a\<close> .. \<open>z\<close> and the
  capital letters of the Latin-1 supplement, U+00C0 .. U+00DE without the
  multiplication sign U+00D7, to the letter 32 places further on; no other code
  unit below 256 has a lower-case form of its own.
\<close>

definition toLowerCase_char :: "char \<Rightarrow> char" where
  "toLowerCase_char c =
     (case map_of (zip ''ABCDEFGHIJKLMNOPQRSTUVWXYZ'' ''abcdefghijklmnopqrstuvwxyz'') c of
        Some d \<Rightarrow> d
      | None \<Rightarrow>
          (let n = (of_char c :: nat)
           in if (192 \<le> n \<and> n \<le> 214) \<or> (216 \<le> n \<and> n \<le> 222)
              then char_of (n + 32) else c))"

definition toLowerCase :: "string \<Rightarrow> string" where
  "toLowerCase s = map toLowerCase_char s"

text \<open>
  \<open>s.split(sep)\<close> with a one-character separator: the pieces between the occurrences
  of \<open>sep\<close>, never an empty array (\<open>"".split("/")\<close> is \<open>[""]\<close>).
\<close>

fun split :: "char \<Rightarrow> string \<Rightarrow> string list" where
  "split sep [] = [[]]"
| "split sep (c # cs) =
     (if c = sep then [] # split sep cs
      else (case split sep cs of
              [] \<Rightarrow> [[c]]
            | p # ps \<Rightarrow> (c # p) # ps))"

text \<open>\<open>parts.join(sep)\<close> with a one-character separator.\<close>

fun join :: "char \<Rightarrow> string list \<Rightarrow> string" where
  "join sep [] = []"
| "join sep [p] = p"
| "join sep (p # q # ps) = p @ sep # join sep (q # ps)"

text \<open>\<open>s.startsWith(p)\<close>.\<close>

definition startsWith :: "string \<Rightarrow> string \<Rightarrow> bool" where
  "startsWith s p = (take (length p) s = p)"

text \<open>
  \<open>parts.indexOf(x)\<close>: the first index holding \<open>x\<close>, or \<open>-1\<close>.
\<close>

fun indexOf :: "'a list \<Rightarrow> 'a \<Rightarrow> int" where
  "indexOf [] x = -1"
| "indexOf (y # ys) x =
     (if y = x then 0 else (let i = indexOf ys x in if i = -1 then -1 else i + 1))"

section \<open>Type tags of the listed files\<close>

text \<open>
  The table \<open>mimeToExt\<close> of \<open>fetchFiles\<close>, in the order of the source. Its keys all
  contain \<open>/\<close>, and the lookup happens only for a type that contains \<open>/\<close>, so no
  inherited property of the object literal can be hit.
\<close>

definition mimeToExt :: "(string \<times> string) list" where
  "mimeToExt =
    [(''image/png'', ''png''),
     (''image/jpeg'', ''jpg''),
     (''image/jpg'', ''jpg''),
     (''image/gif'', ''gif''),
     (''image/svg+xml'', ''svg''),
     (''application/pdf'', ''pdf''),
     (''application/vnd.openxmlformats-officedocument.wordprocessingml.document'', ''docx''),
     (''application/vnd.openxmlformats-officedocument.spreadsheetml.sheet'', ''xlsx''),
     (''application/vnd.openxmlformats-officedocument.presentationml.presentation'', ''pptx''),
     (''text/plain'', ''txt''),
     (''video/mp4'', ''mp4''),
     (''video/avi'', ''avi''),
     (''video/mov'', ''mov''),
     (''audio/mp3'', ''mp3''),
     (''audio/wav'', ''wav''),
     (''application/zip'', ''zip''),
     (''application/x-rar-compressed'', ''rar'')]"

text \<open>
  \<open>a || b\<close> on values that are a string or \<open>undefined\<close> (\<open>None\<close>): the left
  operand when it is truthy, that is a non-empty string, else the right operand.
  \<open>or_default\<close> is the same with a string constant on the right.
\<close>

definition or_js :: "string option \<Rightarrow> string option \<Rightarrow> string option" where
  "or_js a b = (case a of None \<Rightarrow> b | Some s \<Rightarrow> if s = [] then b else Some s)"

definition or_default :: "string option \<Rightarrow> string \<Rightarrow> string" where
  "or_default a d = (case a of None \<Rightarrow> d | Some s \<Rightarrow> if s = [] then d else s)"

text \<open>\<open>parts[i]\<close>: \<open>undefined\<close> beyond the end of the array.\<close>

definition at_index :: "'a list \<Rightarrow> nat \<Rightarrow> 'a option" where
  "at_index xs i = (if i < length xs then Some (xs ! i) else None)"

text \<open>
  The callback that \<open>fetchFiles\<close> maps over the fetched rows computes the displayed
  type from the stored \<open>type\<close> and the \<open>name\<close> of a row; \<open>classify\<close> is that
  computation. A \<open>null\<close> type behaves as the empty string does, both being falsy.
  \<open>mime_step\<close> is the first conditional (a type holding \<open>/\<close> goes through the table,
  then through \<open>fileType.split('/')[1]\<close>, then to \<open>'file'\<close>), \<open>extension\<close> is
  \<open>file.name.split('.').pop()?.toLowerCase()\<close>, where \<open>pop\<close> always finds an element
  because \<open>split\<close> never returns an empty array.
\<close>

definition mime_step :: "string \<Rightarrow> string" where
  "mime_step fileType =
     (if fileType \<noteq> [] \<and> CHR ''/'' \<in> set fileType
      then or_default (or_js (map_of mimeToExt fileType)
                             (at_index (split (CHR ''/'') fileType) 1)) ''file''
      else fileType)"

definition extension :: "string \<Rightarrow> string" where
  "extension name = toLowerCase (last (split (CHR ''.'') name))"

definition classify :: "string \<Rightarrow> string \<Rightarrow> string" where
  "classify storedType name =
     (let fileType = mime_step storedType
      in if fileType = [] \<or> fileType = ''file''
         then or_default (Some (extension name)) ''file''
         else fileType)"

record file_row =
  file_name :: string
  file_type :: string
  file_path :: string

definition processedFiles :: "file_row list \<Rightarrow> file_row list" where
  "processedFiles data =
     map (\<lambda>f. f\<lparr>file_type := classify (file_type f) (file_name f)\<rparr>) data"

section \<open>Storage keys of stored references\<close>

text \<open>
  \<open>extractStoragePath\<close> calls two functions of the host: the constructor \<open>new URL\<close>,
  of which it reads \<open>pathname\<close>, and \<open>decodeURIComponent\<close>. Both can throw (a
  \<open>TypeError\<close> for a string that is no absolute URL, a \<open>URIError\<close> for a malformed
  escape), so each is a function to an option, \<open>None\<close> standing for the throw. The
  theorems about \<open>extractStoragePath\<close> hold for every such pair of functions.
\<close>

datatype js_error =
    TypeError
  | URIError
  | NotFoundError
  | HttpError nat
  | ServiceError string

record url_platform =
  url_pathname :: "string \<Rightarrow> string option"
  decodeURIComponent :: "string \<Rightarrow> string option"

text \<open>
  The body of the \<open>try\<close> block: what it returns, or the error it throws. The array
  \<open>pathParts\<close> is never empty, so \<open>pathParts[pathParts.length - 1]\<close> is its last
  element. The \<open>console.log\<close> lines return nothing to the code and are left out;
  the \<open>console.error\<close> line of the \<open>catch\<close> is part of \<open>extractStoragePath_logged\<close>
  below, which is the same function run in a browser.
\<close>

definition extractStoragePath_try :: "url_platform \<Rightarrow> string \<Rightarrow> js_error + string" where
  "extractStoragePath_try P filePath =
     (case url_pathname P filePath of
        None \<Rightarrow> Inl TypeError
      | Some pathname \<Rightarrow>
          (let pathParts = split (CHR ''/'') pathname;
               bucketIndex = indexOf pathParts ''student-files''
           in if bucketIndex \<noteq> -1 \<and> bucketIndex < int (length pathParts) - 1
              then (case decodeURIComponent P
                           (join (CHR ''/'') (drop (nat (bucketIndex + 1)) pathParts)) of
                      None \<Rightarrow> Inl URIError
                    | Some storagePath \<Rightarrow> Inr storagePath)
              else (case decodeURIComponent P (last pathParts) of
                      None \<Rightarrow> Inl URIError
                    | Some lastPart \<Rightarrow> Inr lastPart)))"

text \<open>
  The whole function: the early return for a reference that does not start with
  \<open>http\<close>, and the \<open>catch\<close> that returns the reference as it came.
\<close>

definition extractStoragePath :: "url_platform \<Rightarrow> string \<Rightarrow> js_error + string" where
  "extractStoragePath P filePath =
     (if \<not> startsWith filePath ''http'' then Inr filePath
      else (case extractStoragePath_try P filePath of
              Inl error \<Rightarrow> Inr filePath
            | Inr storagePath \<Rightarrow> Inr storagePath))"

subsection \<open>A host for the examples\<close>

text \<open>
  The examples need one concrete host. \<open>plain_url_pathname\<close> reads the path of a plain
  absolute URL: one of the schemes \<open>http\<close>, \<open>https\<close>, \<open>ftp\<close>, then \<open>://\<close>, a
  non-empty authority, and the path up to the first \<open>?\<close> or \<open>#\<close>, an empty path
  reading \<open>/\<close>. Everything else it rejects. The URL standard accepts more shapes and
  rewrites some paths (dot segments, spaces, backslashes); the examples use none of
  those. \<open>ascii_decodeURIComponent\<close> decodes the escapes \<open>%00\<close> .. \<open>%7F\<close> and rejects
  a \<open>%\<close> that is not followed by two hexadecimal digits; the multi-byte escapes of
  non-ASCII text are outside the strings modelled here and rejected too.
\<close>

definition plain_url_pathname :: "string \<Rightarrow> string option" where
  "plain_url_pathname s =
     (let rest = (if startsWith s ''https://'' then Some (drop 8 s)
                  else if startsWith s ''http://'' then Some (drop 7 s)
                  else if startsWith s ''ftp://'' then Some (drop 6 s)
                  else None)
      in case rest of
           None \<Rightarrow> None
         | Some r \<Rightarrow>
             (let authority = takeWhile (\<lambda>c. c \<notin> set ''/?#'') r;
                  path = takeWhile (\<lambda>c. c \<notin> set ''?#'') (dropWhile (\<lambda>c. c \<notin> set ''/?#'') r)
              in if authority = [] then None
                 else if path = [] then Some ''/'' else Some path))"

definition hex_digit :: "char \<Rightarrow> nat option" where
  "hex_digit c =
     map_of (zip ''0123456789abcdef'' [0 ..< 16] @ zip ''ABCDEF'' [10 ..< 16]) c"

fun ascii_decodeURIComponent :: "string \<Rightarrow> string option" where
  "ascii_decodeURIComponent [] = Some []"
| "ascii_decodeURIComponent (c # cs) =
     (if c \<noteq> CHR ''%'' then map_option ((#) c) (ascii_decodeURIComponent cs)
      else (case cs of
              h # l # rest \<Rightarrow>
                (case (hex_digit h, hex_digit l) of
                   (Some a, Some b) \<Rightarrow>
                     if 16 * a + b < 128
                     then map_option ((#) (char_of (16 * a + b))) (ascii_decodeURIComponent rest)
                     else None
                 | _ \<Rightarrow> None)
            | _ \<Rightarrow> None))"

definition web :: url_platform where
  "web = \<lparr>url_pathname = plain_url_pathname, decodeURIComponent = ascii_decodeURIComponent\<rparr>"

section \<open>Downloading a file\<close>

subsection \<open>The browser and the services\<close>

text \<open>
  \<open>handleDownload\<close> talks to the storage service, to \<open>fetch\<close>, to the document and
  to the window. What those answer is not decided by the page, so the answers are the
  fields of an environment, one function per call:
  \<^item> \<open>createSignedUrl\<close> resolves to \<open>{data, error}\<close> with a signed URL or with an
    error, or its promise rejects;
  \<^item> \<open>getPublicUrl\<close> returns a URL string;
  \<^item> \<open>fetch\<close> rejects, or resolves to a response with its \<open>ok\<close> flag, its status
    and a body whose \<open>blob()\<close> resolves or rejects;
  \<^item> \<open>window.open\<close> throws or returns; with \<open>noopener\<close> it returns \<open>null\<close> whether
    a tab opened or not, so the returned flag only records what happened, and the
    code does not read it.
  Creating an element, setting its properties, appending it to the body, clicking it
  and scheduling a timer do not throw.
\<close>

datatype sign_result =
    Signed string
  | SignError js_error
  | SignRejected js_error

datatype blob_result =
    Blob string
  | BlobRejected js_error

datatype fetch_result =
    FetchRejected js_error
  | Response bool nat blob_result

record env =
  urls :: url_platform
  createSignedUrl :: "string \<Rightarrow> nat \<Rightarrow> sign_result"
  getPublicUrl :: "string \<Rightarrow> string"
  fetch :: "string \<Rightarrow> fetch_result"
  window_open :: "string \<Rightarrow> js_error + bool"

text \<open>
  An address is a remote URL or an object URL made by \<open>URL.createObjectURL\<close>, which
  are numbered in the order of their creation. An anchor element carries the
  properties the code sets on it.
\<close>

datatype address =
    Remote string
  | ObjectURL nat

record anchor =
  href :: address
  download :: string
  display :: string
  target :: "string option"
  rel :: "string option"

text \<open>
  The two callbacks handed to \<open>setTimeout\<close>: the one of the public-URL branch removes
  the anchor, the one of the fetch branch removes the anchor and then revokes the
  object URL.
\<close>

datatype timer =
    RemoveAnchor anchor
  | RemoveAnchorAndRevoke anchor nat

text \<open>
  What the page does to the outside, in the order it does it. The options of
  \<open>fetch\<close> (method \<open>GET\<close>, the headers \<open>Accept\<close> and \<open>Cache-Control\<close>) are the
  same in every call and are not part of the event. Of the console only the
  \<open>console.error\<close> lines are kept, with the error they print; the \<open>console.log\<close>
  lines mark no failure and are left out.
\<close>

datatype event =
    CreateSignedUrl string nat
  | GetPublicUrl string
  | Fetch string
  | CreateObjectURL nat
  | Click anchor
  | SetTimeout timer nat
  | WindowOpen string string string
  | ConsoleError string js_error

text \<open>
  The state of the browser between steps: the anchors appended to the body, the
  object URLs created and not yet revoked, the number of object URLs created so
  far, the timers waiting, and the events so far.
\<close>

record browser =
  body :: "anchor list"
  objectURLs :: "nat list"
  issued :: nat
  timers :: "timer list"
  trace :: "event list"

definition emit :: "event \<Rightarrow> browser \<Rightarrow> browser" where
  "emit e b = b\<lparr>trace := trace b @ [e]\<rparr>"

definition createObjectURL :: "browser \<Rightarrow> nat \<times> browser" where
  "createObjectURL b =
     (issued b,
      emit (CreateObjectURL (issued b))
        (b\<lparr>objectURLs := issued b # objectURLs b, issued := Suc (issued b)\<rparr>))"

definition appendChild :: "anchor \<Rightarrow> browser \<Rightarrow> browser" where
  "appendChild a b = b\<lparr>body := body b @ [a]\<rparr>"

definition click :: "anchor \<Rightarrow> browser \<Rightarrow> browser" where
  "click a b = emit (Click a) b"

definition setTimeout :: "timer \<Rightarrow> nat \<Rightarrow> browser \<Rightarrow> browser" where
  "setTimeout t ms b = emit (SetTimeout t ms) (b\<lparr>timers := timers b @ [t]\<rparr>)"

text \<open>
  \<open>removeChild\<close> throws \<open>NotFoundError\<close> for a node that is not a child;
  \<open>revokeObjectURL\<close> ignores a URL that is not registered.
\<close>

definition removeChild :: "anchor \<Rightarrow> browser \<Rightarrow> js_error + browser" where
  "removeChild a b =
     (if a \<in> set (body b) then Inr (b\<lparr>body := remove1 a (body b)\<rparr>) else Inl NotFoundError)"

definition revokeObjectURL :: "nat \<Rightarrow> browser \<Rightarrow> browser" where
  "revokeObjectURL u b = b\<lparr>objectURLs := removeAll u (objectURLs b)\<rparr>"

text \<open>
  Running a callback: an exception ends it where it is thrown and goes to the event
  loop, so a failing \<open>removeChild\<close> leaves the object URL unrevoked.
\<close>

fun run_timer :: "timer \<Rightarrow> browser \<Rightarrow> browser" where
  "run_timer (RemoveAnchor a) b =
     (case removeChild a b of Inl e \<Rightarrow> b | Inr b' \<Rightarrow> b')"
| "run_timer (RemoveAnchorAndRevoke a blobUrl) b =
     (case removeChild a b of Inl e \<Rightarrow> b | Inr b' \<Rightarrow> revokeObjectURL blobUrl b')"

definition run_timers :: "browser \<Rightarrow> browser" where
  "run_timers b = fold run_timer (timers b) (b\<lparr>timers := []\<rparr>)"

subsection \<open>The handler\<close>

text \<open>
  The inner \<open>try\<close> block: the fetch, the check of \<open>response.ok\<close>, the blob, the
  object URL, the hidden anchor and its click, and the timer that cleans up. It
  returns the error thrown, if any, with the state reached.
\<close>

definition fetch_and_save :: "env \<Rightarrow> file_row \<Rightarrow> string \<Rightarrow> browser \<Rightarrow> (js_error + unit) \<times> browser" where
  "fetch_and_save E file signedUrl b =
     (let b1 = emit (Fetch signedUrl) b
      in case fetch E signedUrl of
           FetchRejected e \<Rightarrow> (Inl e, b1)
         | Response ok status content \<Rightarrow>
             if \<not> ok then (Inl (HttpError status), b1)
             else (case content of
                     BlobRejected e \<Rightarrow> (Inl e, b1)
                   | Blob bytes \<Rightarrow>
                       (let (blobUrl, b2) = createObjectURL b1;
                            a = \<lparr>href = ObjectURL blobUrl, download = file_name file,
                                 display = ''none'', target = None, rel = None\<rparr>;
                            b3 = click a (appendChild a b2);
                            b4 = setTimeout (RemoveAnchorAndRevoke a blobUrl) 100 b3
                        in (Inr (), b4))))"

text \<open>The inner \<open>try\<close> with its \<open>catch\<close>, which opens the signed URL in a new tab.\<close>

definition signed_download :: "env \<Rightarrow> file_row \<Rightarrow> string \<Rightarrow> browser \<Rightarrow> (js_error + unit) \<times> browser" where
  "signed_download E file signedUrl b =
     (case fetch_and_save E file signedUrl b of
        (Inr u, b') \<Rightarrow> (Inr (), b')
      | (Inl fetchError, b') \<Rightarrow>
          (let b1 = emit (ConsoleError ''Fetch failed, trying direct link:'' fetchError) b';
               b2 = emit (WindowOpen signedUrl ''_blank'' ''noopener,noreferrer'') b1
           in case window_open E signedUrl of
                Inl e \<Rightarrow> (Inl e, b2)
              | Inr opened \<Rightarrow> (Inr (), b2)))"

text \<open>The branch taken when signing answers with an error.\<close>

definition public_download :: "env \<Rightarrow> file_row \<Rightarrow> string \<Rightarrow> browser \<Rightarrow> (js_error + unit) \<times> browser" where
  "public_download E file storagePath b =
     (let b1 = emit (GetPublicUrl storagePath) b;
          publicUrl = getPublicUrl E storagePath
      in if publicUrl \<noteq> []
         then (let a = \<lparr>href = Remote publicUrl, download = file_name file,
                        display = ''none'', target = Some ''_blank'',
                        rel = Some ''noopener noreferrer''\<rparr>;
                   b2 = click a (appendChild a b1);
                   b3 = setTimeout (RemoveAnchor a) 100 b2
               in (Inr (), b3))
         else (Inr (), b1))"

text \<open>
  \<open>extractStoragePath\<close> as it runs in the browser: the value is the one of
  \<open>extractStoragePath\<close> above, and the \<open>catch\<close> writes its
  \<open>console.error('Error parsing file path:', error)\<close> before it returns the
  reference.
\<close>

definition extractStoragePath_logged ::
    "url_platform \<Rightarrow> string \<Rightarrow> browser \<Rightarrow> (js_error + string) \<times> browser" where
  "extractStoragePath_logged P filePath b =
     (if \<not> startsWith filePath ''http'' then (Inr filePath, b)
      else (case extractStoragePath_try P filePath of
              Inl error \<Rightarrow>
                (Inr filePath, emit (ConsoleError ''Error parsing file path:'' error) b)
            | Inr storagePath \<Rightarrow> (Inr storagePath, b)))"

text \<open>The outer \<open>try\<close> block.\<close>

definition handleDownload_try :: "env \<Rightarrow> file_row \<Rightarrow> browser \<Rightarrow> (js_error + unit) \<times> browser" where
  "handleDownload_try E file b =
     (case extractStoragePath_logged (urls E) (file_path file) b of
        (Inl e, b0) \<Rightarrow> (Inl e, b0)
      | (Inr storagePath, b0) \<Rightarrow>
          (let b1 = emit (CreateSignedUrl storagePath 300) b0
           in case createSignedUrl E storagePath 300 of
                SignRejected e \<Rightarrow> (Inl e, b1)
              | SignError error \<Rightarrow>
                  public_download E file storagePath
                    (emit (ConsoleError ''Error creating download URL:'' error) b1)
              | Signed signedUrl \<Rightarrow> signed_download E file signedUrl b1))"

text \<open>
  The handler is an \<open>async\<close> function with no \<open>return\<close> value: its promise is
  fulfilled with \<open>undefined\<close> or rejected with the exception that left the body.
  The outer \<open>catch\<close> logs what reaches it.
\<close>

datatype settled =
    Fulfilled
  | Rejected js_error

definition handleDownload :: "env \<Rightarrow> file_row \<Rightarrow> browser \<Rightarrow> settled \<times> browser" where
  "handleDownload E file b =
     (case handleDownload_try E file b of
        (Inl error, b') \<Rightarrow> (Fulfilled, emit (ConsoleError ''Download failed:'' error) b')
      | (Inr u, b') \<Rightarrow> (Fulfilled, b'))"

subsection \<open>Notions used to state the properties\<close>

text \<open>
  The text of a type after its first \<open>/\<close>, and the part of that text before the
  next \<open>/\<close>.
\<close>

definition substring_after :: "char \<Rightarrow> string \<Rightarrow> string" where
  "substring_after sep s = drop 1 (dropWhile (\<lambda>c. c \<noteq> sep) s)"

definition segment_after :: "char \<Rightarrow> string \<Rightarrow> string" where
  "segment_after sep s = takeWhile (\<lambda>c. c \<noteq> sep) (substring_after sep s)"

text \<open>
  The error with which the fetch strategy fails for an answer of \<open>fetch\<close>, if it
  fails: a rejected request, a response that is not \<open>ok\<close>, or a body that cannot be
  read.
\<close>

fun fetch_failure :: "fetch_result \<Rightarrow> js_error option" where
  "fetch_failure (FetchRejected e) = Some e"
| "fetch_failure (Response ok status (BlobRejected e)) =
     (if ok then Some e else Some (HttpError status))"
| "fetch_failure (Response ok status (Blob bytes)) =
     (if ok then None else Some (HttpError status))"

text \<open>
  What \<open>extractStoragePath\<close> writes to the console for a stored reference: the
  line of its \<open>catch\<close>, when the reference starts with \<open>http\<close> and the \<open>try\<close>
  block throws, and nothing otherwise.
\<close>

definition parse_errors :: "url_platform \<Rightarrow> string \<Rightarrow> event list" where
  "parse_errors P filePath =
     (if startsWith filePath ''http''
      then (case extractStoragePath_try P filePath of
              Inl error \<Rightarrow> [ConsoleError ''Error parsing file path:'' error]
            | Inr storagePath \<Rightarrow> [])
      else [])"

text \<open>The hidden anchor of the fetch strategy for an object URL and a row.\<close>

definition blob_anchor :: "nat \<Rightarrow> file_row \<Rightarrow> anchor" where
  "blob_anchor blobUrl file =
     \<lparr>href = ObjectURL blobUrl, download = file_name file,
      display = ''none'', target = None, rel = None\<rparr>"

text \<open>
  The events that deliver the file, as opposed to those that obtain the URL and to
  the diagnostics on the console.
\<close>

fun is_delivery :: "event \<Rightarrow> bool" where
  "is_delivery (CreateSignedUrl k ttl) = False"
| "is_delivery (GetPublicUrl k) = False"
| "is_delivery (ConsoleError m e) = False"
| "is_delivery (Fetch u) = True"
| "is_delivery (CreateObjectURL n) = True"
| "is_delivery (Click a) = True"
| "is_delivery (SetTimeout t ms) = True"
| "is_delivery (WindowOpen u t f) = True"

definition delivery :: "event list \<Rightarrow> event list" where
  "delivery es = filter is_delivery es"

text \<open>
  The environments of the examples answer every call of one kind in the same way;
  one row is a file stored under its bare key, the other an older row stored
  under a URL whose last piece has a malformed escape; the browser starts with
  nothing pending.
\<close>

definition service :: "sign_result \<Rightarrow> string \<Rightarrow> fetch_result \<Rightarrow> js_error + bool \<Rightarrow> env" where
  "service signing publicUrl fetching opening =
     \<lparr>urls = web,
      createSignedUrl = (\<lambda>k ttl. signing),
      getPublicUrl = (\<lambda>k. publicUrl),
      fetch = (\<lambda>u. fetching),
      window_open = (\<lambda>u. opening)\<rparr>"

definition report_row :: file_row where
  "report_row = \<lparr>file_name = ''report.pdf'', file_type = ''pdf'', file_path = ''report.pdf''\<rparr>"

definition legacy_row :: file_row where
  "legacy_row =
     \<lparr>file_name = ''budget.pdf'', file_type = ''pdf'',
      file_path = ''https://store.example/object/public/student-files/100%''\<rparr>"

definition idle :: browser where
  "idle = \<lparr>body = [], objectURLs = [], issued = 0, timers = [], trace = []\<rparr>"

section \<open>Properties of the type tags\<close>

lemmas classify_defs = classify_def mime_step_def or_js_def or_default_def at_index_def
  extension_def toLowerCase_def toLowerCase_char_def

lemma split_not_Nil: "split sep s \<noteq> []"
  by (induction s) (auto split: list.splits)

lemma split_no_sep: "sep \<notin> set s \<Longrightarrow> split sep s = [s]"
  by (induction s) auto

lemma split_unfold:
  "split sep s =
     takeWhile (\<lambda>c. c \<noteq> sep) s #
       (if sep \<in> set s then split sep (substring_after sep s) else [])"
proof (induction s)
  case Nil
  show ?case by simp
next
  case (Cons c cs)
  then show ?case
    by (cases "split sep cs") (auto simp: substring_after_def split_not_Nil)
qed

lemma split_second:
  assumes "sep \<in> set s"
  shows "at_index (split sep s) 1 = Some (segment_after sep s)"
proof -
  have "split sep s = takeWhile (\<lambda>c. c \<noteq> sep) s # split sep (substring_after sep s)"
    using assms split_unfold [of sep s] by simp
  moreover have "\<exists>r. split sep (substring_after sep s) = segment_after sep s # r"
    using split_unfold [of sep "substring_after sep s"] by (simp add: segment_after_def)
  ultimately show ?thesis by (auto simp: at_index_def)
qed

text \<open>
  \<open>toLowerCase\<close> at the edges of the Latin-1 capitals: U+00C0 and U+00DE are
  lowered, the multiplication sign U+00D7, the sharp s U+00DF and U+00FF stay.
\<close>

lemma toLowerCase_latin1:
  "toLowerCase [CHR 0xC0, CHR 0xD6, CHR 0xD7, CHR 0xD8, CHR 0xDE, CHR 0xDF, CHR 0xFF] =
     [CHR 0xE0, CHR 0xF6, CHR 0xD7, CHR 0xF8, CHR 0xFE, CHR 0xDF, CHR 0xFF]"
  by code_simp

lemma toLowerCase_Nil_iff: "toLowerCase s = [] \<longleftrightarrow> s = []"
  by (simp add: toLowerCase_def)

lemma mimeToExt_values:
  "map_of mimeToExt t = Some v \<Longrightarrow> v \<noteq> [] \<and> v \<noteq> ''file'' \<and> CHR ''/'' \<in> set t"
  unfolding mimeToExt_def by (auto split: if_splits)

lemma mime_step_listed:
  "map_of mimeToExt storedType = Some tag \<Longrightarrow> mime_step storedType = tag"
  using mimeToExt_values [of storedType tag]
  by (auto simp: mime_step_def or_js_def or_default_def)

lemma mime_step_unlisted:
  assumes "CHR ''/'' \<in> set storedType" and "map_of mimeToExt storedType = None"
  shows "mime_step storedType =
           (if segment_after (CHR ''/'') storedType = [] then ''file''
            else segment_after (CHR ''/'') storedType)"
  using assms split_second [OF assms(1)]
  by (auto simp: mime_step_def or_js_def or_default_def)

lemma or_default_not_Nil: "d \<noteq> [] \<Longrightarrow> or_default a d \<noteq> []"
  by (simp add: or_default_def split: option.splits)

text \<open>
  The tag is never empty, for any stored type and any name: the part of C8 that the
  code keeps.
\<close>

lemma classify_not_Nil: "classify storedType name \<noteq> []"
  unfolding classify_def Let_def by (simp add: or_default_not_Nil)

text \<open>
  C6, as the code has it. For a stored type that contains \<open>/\<close>: a type listed in the
  table gets the tag of the table; a type not listed gets the text between its first
  \<open>/\<close> and the next \<open>/\<close> (or the end), provided that text is neither empty nor
  \<open>file\<close>; otherwise the tag comes from the name, as the lower-cased last piece of
  the name split at \<open>.\<close>, or is \<open>file\<close> when that piece is empty. The three values
  of the specification hold: \<open>classify("image/png", "x") = "png"\<close>,
  \<open>classify("", "notes.docx") = "docx"\<close>, \<open>classify("", "") = "file"\<close>.
\<close>

theorem classify_compound:
  assumes "CHR ''/'' \<in> set storedType"
  shows "(map_of mimeToExt storedType = Some tag \<longrightarrow> classify storedType name = tag) \<and>
         (map_of mimeToExt storedType = None \<and> segment_after (CHR ''/'') storedType \<noteq> [] \<and>
          segment_after (CHR ''/'') storedType \<noteq> ''file''
            \<longrightarrow> classify storedType name = segment_after (CHR ''/'') storedType) \<and>
         (map_of mimeToExt storedType = None \<and>
          (segment_after (CHR ''/'') storedType = [] \<or>
           segment_after (CHR ''/'') storedType = ''file'')
            \<longrightarrow> classify storedType name =
                  (if extension name = [] then ''file'' else extension name)) \<and>
         classify ''image/png'' ''x'' = ''png'' \<and>
         classify [] ''notes.docx'' = ''docx'' \<and>
         classify [] [] = ''file''"
proof -
  have listed: "map_of mimeToExt storedType = Some tag \<longrightarrow> classify storedType name = tag"
    using mimeToExt_values [of storedType tag]
    by (auto simp: classify_def mime_step_listed)
  have segment: "map_of mimeToExt storedType = None \<and>
          segment_after (CHR ''/'') storedType \<noteq> [] \<and>
          segment_after (CHR ''/'') storedType \<noteq> ''file''
            \<longrightarrow> classify storedType name = segment_after (CHR ''/'') storedType"
    using assms by (auto simp: classify_def mime_step_unlisted)
  have fallback: "map_of mimeToExt storedType = None \<and>
          (segment_after (CHR ''/'') storedType = [] \<or>
           segment_after (CHR ''/'') storedType = ''file'')
            \<longrightarrow> classify storedType name =
                  (if extension name = [] then ''file'' else extension name)"
    using assms by (auto simp: classify_def mime_step_unlisted or_default_def)
  have png: "classify ''image/png'' ''x'' = ''png''"
    by (simp add: classify_defs mimeToExt_def)
  have docx: "classify [] ''notes.docx'' = ''docx''"
    by (simp add: classify_defs)
  have none: "classify [] [] = ''file''"
    by (simp add: classify_defs)
  from listed segment fallback png docx none show ?thesis by blast
qed

text \<open>
  The three cases at work: \<open>image/webp\<close> is not listed and gives \<open>webp\<close>;
  \<open>video/mp4\<close> is listed; \<open>text/\<close> has nothing after the separator, so the name
  decides.
\<close>

theorem classify_compound_witness:
  "CHR ''/'' \<in> set ''image/webp'' \<and> map_of mimeToExt ''image/webp'' = None \<and>
   segment_after (CHR ''/'') ''image/webp'' = ''webp'' \<and>
   classify ''image/webp'' ''x'' = ''webp'' \<and>
   CHR ''/'' \<in> set ''video/mp4'' \<and> map_of mimeToExt ''video/mp4'' = Some ''mp4'' \<and>
   classify ''video/mp4'' ''x'' = ''mp4'' \<and>
   CHR ''/'' \<in> set ''text/'' \<and> map_of mimeToExt ''text/'' = None \<and>
   segment_after (CHR ''/'') ''text/'' = [] \<and> extension ''notes.TXT'' = ''txt'' \<and>
   classify ''text/'' ''notes.TXT'' = ''txt''"
proof -
  have w1: "CHR ''/'' \<in> set ''image/webp''" by simp
  have w2: "map_of mimeToExt ''image/webp'' = None" by (simp add: mimeToExt_def)
  have w3: "segment_after (CHR ''/'') ''image/webp'' = ''webp''"
    by (simp add: segment_after_def substring_after_def)
  have m1: "CHR ''/'' \<in> set ''video/mp4''" by simp
  have m2: "map_of mimeToExt ''video/mp4'' = Some ''mp4''" by (simp add: mimeToExt_def)
  have t1: "CHR ''/'' \<in> set ''text/''" by simp
  have t2: "map_of mimeToExt ''text/'' = None" by (simp add: mimeToExt_def)
  have t3: "segment_after (CHR ''/'') ''text/'' = []"
    by (simp add: segment_after_def substring_after_def)
  have t4: "extension ''notes.TXT'' = ''txt''"
    by (simp add: extension_def toLowerCase_def toLowerCase_char_def)
  show ?thesis
    using classify_compound [OF w1, of "''webp''" "''x''"]
      classify_compound [OF m1, of "''mp4''" "''x''"]
      classify_compound [OF t1, of "''txt''" "''notes.TXT''"]
    by (simp add: w2 w3 m2 t2 t3 t4)
qed

text \<open>
  C6 as it is written says that a compound type outside the table gets the substring
  after the separator. Three stored types outside the table where the tag is another
  one: \<open>text/\<close> (nothing follows the separator, the name \<open>notes.txt\<close> decides),
  \<open>x/file\<close> (the substring is \<open>file\<close>, the name \<open>photo.png\<close> decides) and
  \<open>a/b/c\<close> (the substring is \<open>b/c\<close>, the tag is \<open>b\<close>).
\<close>

theorem classify_unlisted_compound:
  "CHR ''/'' \<in> set ''text/'' \<and> map_of mimeToExt ''text/'' = None \<and>
   substring_after (CHR ''/'') ''text/'' = [] \<and>
   classify ''text/'' ''notes.txt'' = ''txt'' \<and>
   CHR ''/'' \<in> set ''x/file'' \<and> map_of mimeToExt ''x/file'' = None \<and>
   substring_after (CHR ''/'') ''x/file'' = ''file'' \<and>
   classify ''x/file'' ''photo.png'' = ''png'' \<and>
   CHR ''/'' \<in> set ''a/b/c'' \<and> map_of mimeToExt ''a/b/c'' = None \<and>
   substring_after (CHR ''/'') ''a/b/c'' = ''b/c'' \<and>
   classify ''a/b/c'' ''x'' = ''b''"
  by (simp add: classify_defs mimeToExt_def substring_after_def)

text \<open>
  C8 asks for the tag \<open>file\<close> when the stored type is empty and the name has no
  extension. The name \<open>Makefile\<close> has no \<open>.\<close> and the stored type is empty, yet the
  tag computed is \<open>makefile\<close>: the variable \<open>extension\<close> of the source receives the
  whole name, and the default \<open>'file'\<close> written next to it is not reached.
\<close>

theorem classify_dotless_name:
  "CHR ''.'' \<notin> set ''Makefile'' \<and> classify [] ''Makefile'' = ''makefile''"
  by (simp add: classify_defs)

text \<open>
  C10, as the code has it. When the stored type is empty or \<open>file\<close> and the name
  contains no \<open>.\<close>, the tag is the whole name in lower case if the name is not
  empty, and \<open>file\<close> if the name is empty.
\<close>

theorem classify_whole_name:
  assumes "storedType = [] \<or> storedType = ''file''" and "CHR ''.'' \<notin> set name"
  shows "(name \<noteq> [] \<longrightarrow> classify storedType name = toLowerCase name) \<and>
         (name = [] \<longrightarrow> classify storedType name = ''file'')"
proof -
  have "mime_step storedType = storedType" using assms(1) by (auto simp: mime_step_def)
  moreover have "extension name = toLowerCase name"
    using assms(2) by (simp add: extension_def split_no_sep)
  ultimately show ?thesis
    using assms(1) by (auto simp: classify_def or_default_def toLowerCase_Nil_iff)
qed

text \<open>
  The example of C10, \<open>classify("", "README")\<close> is \<open>readme\<close>, and the empty name
  under the stored type \<open>file\<close>.
\<close>

theorem classify_whole_name_witness:
  "([] = [] \<or> [] = ''file'') \<and> CHR ''.'' \<notin> set ''README'' \<and> ''README'' \<noteq> [] \<and>
   classify [] ''README'' = ''readme'' \<and>
   (''file'' = [] \<or> ''file'' = ''file'') \<and> CHR ''.'' \<notin> set [] \<and>
   classify ''file'' [] = ''file''"
proof -
  have a: "([]::string) = [] \<or> [] = ''file''" by simp
  have b: "CHR ''.'' \<notin> set ''README''" by simp
  have c: "''README'' \<noteq> []" by simp
  have d: "toLowerCase ''README'' = ''readme''"
    by (simp add: toLowerCase_def toLowerCase_char_def)
  have e: "''file'' = [] \<or> ''file'' = ''file''" by simp
  have f: "CHR ''.'' \<notin> set []" by simp
  show ?thesis
    using classify_whole_name [OF a b] classify_whole_name [OF e f] by (simp add: d)
qed

text \<open>
  A name with a capital letter of the Latin-1 supplement, U+00C0 followed by \<open>B\<close>:
  the tag is U+00E0 followed by \<open>b\<close>.
\<close>

lemma classify_latin1_name:
  "classify [] [CHR 0xC0, CHR ''B''] = [CHR 0xE0, CHR ''b'']"
  by code_simp

text \<open>
  C10 as it is written covers the empty name, which contains no \<open>.\<close> either: there
  the whole name in lower case is the empty string, and the tag is \<open>file\<close>.
\<close>

theorem classify_empty_name:
  "CHR ''.'' \<notin> set [] \<and> toLowerCase [] = [] \<and> classify [] [] = ''file''"
  by (simp add: classify_defs)

section \<open>Properties of the storage keys\<close>

lemma indexOf_ge: "- 1 \<le> indexOf xs x"
  by (induction xs) (auto simp: Let_def)

lemma indexOf_absent: "indexOf xs x = - 1 \<longleftrightarrow> x \<notin> set xs"
proof (induction xs)
  case Nil
  show ?case by simp
next
  case (Cons y ys)
  have "- 1 \<le> indexOf ys x" by (rule indexOf_ge)
  with Cons show ?case by (auto simp: Let_def)
qed

lemma indexOf_takeWhile:
  "x \<in> set xs \<Longrightarrow> indexOf xs x = int (length (takeWhile (\<lambda>y. y \<noteq> x) xs))"
  by (induction xs) (auto simp: Let_def indexOf_absent)

lemma takeWhile_butlast:
  "x \<in> set xs \<Longrightarrow> (length (takeWhile (\<lambda>y. y \<noteq> x) xs) < length xs - 1) = (x \<in> set (butlast xs))"
  by (induction xs) auto

lemma indexOf_before_last:
  "(indexOf xs x \<noteq> - 1 \<and> indexOf xs x < int (length xs) - 1) = (x \<in> set (butlast xs))"
proof (cases "x \<in> set xs")
  case True
  then show ?thesis
    using takeWhile_butlast [OF True] by (auto simp: indexOf_takeWhile indexOf_absent)
next
  case False
  then have "x \<notin> set (butlast xs)" by (auto dest: in_set_butlastD)
  with False show ?thesis by (simp add: indexOf_absent)
qed

lemma drop_indexOf:
  "x \<in> set xs \<Longrightarrow> drop (nat (indexOf xs x + 1)) xs = tl (dropWhile (\<lambda>y. y \<noteq> x) xs)"
proof (induction xs)
  case Nil
  then show ?case by simp
next
  case (Cons y ys)
  show ?case
  proof (cases "y = x")
    case True
    then show ?thesis by simp
  next
    case False
    with Cons.prems have m: "x \<in> set ys" by simp
    have "0 \<le> indexOf ys x" using m by (simp add: indexOf_takeWhile)
    then have "nat (indexOf ys x + 1 + 1) = Suc (nat (indexOf ys x + 1))" by simp
    with False m Cons.IH show ?thesis by (simp add: Let_def indexOf_absent)
  qed
qed

lemma try_marker:
  assumes "url_pathname P filePath = Some pathname"
    and "''student-files'' \<in> set (butlast (split (CHR ''/'') pathname))"
  shows "extractStoragePath_try P filePath =
     (case decodeURIComponent P (join (CHR ''/'')
          (tl (dropWhile (\<lambda>p. p \<noteq> ''student-files'') (split (CHR ''/'') pathname)))) of
        None \<Rightarrow> Inl URIError | Some k \<Rightarrow> Inr k)"
proof -
  have m: "''student-files'' \<in> set (split (CHR ''/'') pathname)"
    using assms(2) by (rule in_set_butlastD)
  show ?thesis
    unfolding extractStoragePath_try_def Let_def indexOf_before_last
    using assms by (simp add: drop_indexOf [OF m] del: One_nat_def)
qed

lemma try_fallback:
  assumes "url_pathname P filePath = Some pathname"
    and "''student-files'' \<notin> set (butlast (split (CHR ''/'') pathname))"
  shows "extractStoragePath_try P filePath =
     (case decodeURIComponent P (last (split (CHR ''/'') pathname)) of
        None \<Rightarrow> Inl URIError | Some k \<Rightarrow> Inr k)"
  unfolding extractStoragePath_try_def Let_def indexOf_before_last
  using assms by simp


text \<open>
  C5, as the code has it. Take a stored reference that starts with \<open>http\<close> and that
  the host parses as a URL, and split its path at \<open>/\<close>. If the marker
  \<open>student-files\<close> occurs before the last piece, the key is the pieces after its
  first occurrence, joined with \<open>/\<close> and decoded; otherwise (no marker, or the
  marker only as the last piece) the key is the last piece, decoded. Both hold when
  the decoding succeeds. The reference
  \<open>https://store.example/object/public/student-files/report.pdf\<close> gives
  \<open>report.pdf\<close>.
\<close>

theorem extractStoragePath_of_url:
  assumes "startsWith filePath ''http''" and "url_pathname P filePath = Some pathname"
  shows "(''student-files'' \<in> set (butlast (split (CHR ''/'') pathname)) \<and>
          decodeURIComponent P (join (CHR ''/'')
            (tl (dropWhile (\<lambda>p. p \<noteq> ''student-files'') (split (CHR ''/'') pathname)))) = Some key
            \<longrightarrow> extractStoragePath P filePath = Inr key) \<and>
         (''student-files'' \<notin> set (butlast (split (CHR ''/'') pathname)) \<and>
          decodeURIComponent P (last (split (CHR ''/'') pathname)) = Some key
            \<longrightarrow> extractStoragePath P filePath = Inr key) \<and>
         extractStoragePath web ''https://store.example/object/public/student-files/report.pdf''
           = Inr ''report.pdf''"
proof -
  have marker: "''student-files'' \<in> set (butlast (split (CHR ''/'') pathname)) \<and>
          decodeURIComponent P (join (CHR ''/'')
            (tl (dropWhile (\<lambda>p. p \<noteq> ''student-files'') (split (CHR ''/'') pathname)))) = Some key
            \<longrightarrow> extractStoragePath P filePath = Inr key"
    using assms by (auto simp: extractStoragePath_def try_marker)
  have fallback: "''student-files'' \<notin> set (butlast (split (CHR ''/'') pathname)) \<and>
          decodeURIComponent P (last (split (CHR ''/'') pathname)) = Some key
            \<longrightarrow> extractStoragePath P filePath = Inr key"
    using assms by (auto simp: extractStoragePath_def try_fallback)
  have example: "extractStoragePath web ''https://store.example/object/public/student-files/report.pdf''
           = Inr ''report.pdf''"
    by (simp add: extractStoragePath_def extractStoragePath_try_def startsWith_def web_def
        plain_url_pathname_def)
  from marker fallback example show ?thesis by blast
qed

lemma pathname_nested:
  "plain_url_pathname ''https://store.example/object/public/student-files/2024/my%20report.pdf''
     = Some ''/object/public/student-files/2024/my%20report.pdf''"
  by (simp add: plain_url_pathname_def startsWith_def)

lemma decode_nested:
  "ascii_decodeURIComponent ''2024/my%20report.pdf'' = Some ''2024/my report.pdf''"
  by code_simp

lemma pathname_other:
  "plain_url_pathname ''https://store.example/object/public/other-bucket/report.pdf''
     = Some ''/object/public/other-bucket/report.pdf''"
  by (simp add: plain_url_pathname_def startsWith_def)

text \<open>
  Both cases at work: a nested key with an escaped space under the marker, and a
  reference under another bucket, where the last piece is taken.
\<close>

theorem extractStoragePath_of_url_witness:
  "startsWith ''https://store.example/object/public/student-files/2024/my%20report.pdf'' ''http'' \<and>
   url_pathname web ''https://store.example/object/public/student-files/2024/my%20report.pdf''
     = Some ''/object/public/student-files/2024/my%20report.pdf'' \<and>
   ''student-files'' \<in> set (butlast (split (CHR ''/'') ''/object/public/student-files/2024/my%20report.pdf'')) \<and>
   extractStoragePath web ''https://store.example/object/public/student-files/2024/my%20report.pdf''
     = Inr ''2024/my report.pdf'' \<and>
   startsWith ''https://store.example/object/public/other-bucket/report.pdf'' ''http'' \<and>
   url_pathname web ''https://store.example/object/public/other-bucket/report.pdf''
     = Some ''/object/public/other-bucket/report.pdf'' \<and>
   ''student-files'' \<notin> set (butlast (split (CHR ''/'') ''/object/public/other-bucket/report.pdf'')) \<and>
   extractStoragePath web ''https://store.example/object/public/other-bucket/report.pdf''
     = Inr ''report.pdf''"
proof -
  have s1: "startsWith ''https://store.example/object/public/student-files/2024/my%20report.pdf'' ''http''"
    by (simp add: startsWith_def)
  have p1: "url_pathname web ''https://store.example/object/public/student-files/2024/my%20report.pdf''
     = Some ''/object/public/student-files/2024/my%20report.pdf''"
    by (simp add: web_def pathname_nested)
  have m1: "''student-files'' \<in> set (butlast (split (CHR ''/'') ''/object/public/student-files/2024/my%20report.pdf''))"
    by simp
  have d1: "decodeURIComponent web (join (CHR ''/'')
            (tl (dropWhile (\<lambda>p. p \<noteq> ''student-files'')
               (split (CHR ''/'') ''/object/public/student-files/2024/my%20report.pdf''))))
            = Some ''2024/my report.pdf''"
    using decode_nested by (simp add: web_def)
  have s2: "startsWith ''https://store.example/object/public/other-bucket/report.pdf'' ''http''"
    by (simp add: startsWith_def)
  have p2: "url_pathname web ''https://store.example/object/public/other-bucket/report.pdf''
     = Some ''/object/public/other-bucket/report.pdf''"
    by (simp add: web_def pathname_other)
  have m2: "''student-files'' \<notin> set (butlast (split (CHR ''/'') ''/object/public/other-bucket/report.pdf''))"
    by simp
  have d2: "decodeURIComponent web (last (split (CHR ''/'') ''/object/public/other-bucket/report.pdf''))
            = Some ''report.pdf''"
    by (simp add: web_def)
  show ?thesis
    using extractStoragePath_of_url [OF s1 p1, of "''2024/my report.pdf''"]
      extractStoragePath_of_url [OF s2 p2, of "''report.pdf''"]
      s1 p1 m1 d1 s2 p2 m2 d2
    by blast
qed

text \<open>
  C5 as it is written fails in three places. A URL whose path ends with the marker
  has nothing after the marker, and the key is the marker itself, because of the test
  \<open>bucketIndex < pathParts.length - 1\<close>. A piece with a malformed escape makes
  \<open>decodeURIComponent\<close> throw, and the \<open>catch\<close> returns the reference as it came.
  An \<open>ftp\<close> reference parses as a URL and holds the marker, and is returned as it
  came, because it does not start with \<open>http\<close>.
\<close>

theorem extractStoragePath_guards:
  "url_pathname web ''https://store.example/object/public/student-files''
     = Some ''/object/public/student-files'' \<and>
   ''student-files'' \<in> set (split (CHR ''/'') ''/object/public/student-files'') \<and>
   join (CHR ''/'') (tl (dropWhile (\<lambda>p. p \<noteq> ''student-files'')
     (split (CHR ''/'') ''/object/public/student-files''))) = [] \<and>
   extractStoragePath web ''https://store.example/object/public/student-files''
     = Inr ''student-files'' \<and>
   url_pathname web ''https://store.example/object/public/student-files/100%''
     = Some ''/object/public/student-files/100%'' \<and>
   decodeURIComponent web ''100%'' = None \<and>
   extractStoragePath web ''https://store.example/object/public/student-files/100%''
     = Inr ''https://store.example/object/public/student-files/100%'' \<and>
   url_pathname web ''ftp://store.example/object/public/student-files/report.pdf''
     = Some ''/object/public/student-files/report.pdf'' \<and>
   extractStoragePath web ''ftp://store.example/object/public/student-files/report.pdf''
     = Inr ''ftp://store.example/object/public/student-files/report.pdf''"
  by (simp add: extractStoragePath_def extractStoragePath_try_def startsWith_def web_def
      plain_url_pathname_def)

text \<open>
  C7. For every host and every stored reference \<open>extractStoragePath\<close> returns a key
  and throws nothing; when the URL constructor rejects the reference, the key is
  the reference unchanged.
\<close>

theorem extractStoragePath_total:
  "(\<exists>key. extractStoragePath P filePath = Inr key) \<and>
   (url_pathname P filePath = None \<longrightarrow> extractStoragePath P filePath = Inr filePath)"
  by (auto simp: extractStoragePath_def extractStoragePath_try_def split: sum.splits)

text \<open>
  A reference that starts with \<open>http\<close> and is no URL (the colon is missing) comes
  back unchanged.
\<close>

theorem extractStoragePath_total_witness:
  "url_pathname web ''https//store.example/report.pdf'' = None \<and>
   extractStoragePath web ''https//store.example/report.pdf''
     = Inr ''https//store.example/report.pdf''"
proof -
  have n: "url_pathname web ''https//store.example/report.pdf'' = None"
    by (simp add: web_def plain_url_pathname_def startsWith_def)
  show ?thesis
    using extractStoragePath_total [of web "''https//store.example/report.pdf''"] n by blast
qed

text \<open>
  C9. A stored reference without a scheme either does not start with \<open>http\<close>, and
  then the code returns it at once, or it starts with \<open>http\<close> and the URL
  constructor, which is given no base URL, rejects it. In both cases the key is the
  reference unchanged, and resolving the key again gives the same key.
\<close>

theorem extractStoragePath_canonical:
  assumes "\<not> startsWith x ''http'' \<or> url_pathname P x = None"
  shows "extractStoragePath P x = Inr x \<and>
         (\<exists>y. extractStoragePath P x = Inr y \<and> extractStoragePath P y = Inr y)"
proof -
  have "extractStoragePath P x = Inr x"
    using assms by (auto simp: extractStoragePath_def extractStoragePath_try_def)
  then show ?thesis by simp
qed

text \<open>
  Two bare keys: one that does not start with \<open>http\<close>, and one that does and is
  rejected as a URL.
\<close>

theorem extractStoragePath_canonical_witness:
  "\<not> startsWith ''2024/report.pdf'' ''http'' \<and>
   extractStoragePath web ''2024/report.pdf'' = Inr ''2024/report.pdf'' \<and>
   url_pathname web ''http-archive/report.pdf'' = None \<and>
   extractStoragePath web ''http-archive/report.pdf'' = Inr ''http-archive/report.pdf''"
proof -
  have a: "\<not> startsWith ''2024/report.pdf'' ''http''" by (simp add: startsWith_def)
  have b: "url_pathname web ''http-archive/report.pdf'' = None"
    by (simp add: web_def plain_url_pathname_def startsWith_def)
  show ?thesis
    using extractStoragePath_canonical [of "''2024/report.pdf''" web]
      extractStoragePath_canonical [of "''http-archive/report.pdf''" web] a b
    by blast
qed

section \<open>Properties of the download\<close>

lemmas browser_defs = emit_def createObjectURL_def appendChild_def click_def setTimeout_def
lemmas download_defs = handleDownload_def handleDownload_try_def signed_download_def
  public_download_def fetch_and_save_def extractStoragePath_logged_def Let_def
lemmas download_splits = sum.splits sign_result.splits fetch_result.splits
  blob_result.splits prod.splits if_splits
lemmas example_defs = service_def report_row_def legacy_row_def idle_def web_def
  extractStoragePath_def extractStoragePath_try_def plain_url_pathname_def startsWith_def

text \<open>
  The logged function returns the value of \<open>extractStoragePath\<close> and adds the
  line of the \<open>catch\<close> to the events.
\<close>

lemma extractStoragePath_logged_eq:
  "extractStoragePath_logged P filePath b =
     (extractStoragePath P filePath, b\<lparr>trace := trace b @ parse_errors P filePath\<rparr>)"
  by (simp add: extractStoragePath_logged_def extractStoragePath_def parse_errors_def emit_def
      split: sum.splits)

text \<open>\<open>fetch_failure\<close> says exactly when, and with which error, the inner \<open>try\<close> throws.\<close>

lemma fetch_and_save_failure:
  "fetch_failure (fetch E u) = Some e \<Longrightarrow> fetch_and_save E file u b = (Inl e, emit (Fetch u) b)"
  by (cases "fetch E u" rule: fetch_failure.cases) (auto simp: fetch_and_save_def Let_def split: if_splits)

lemma fetch_and_save_result:
  "fst (fetch_and_save E file u b) =
     (case fetch_failure (fetch E u) of None \<Rightarrow> Inr () | Some e \<Rightarrow> Inl e)"
  by (cases "fetch E u" rule: fetch_failure.cases)
     (auto simp: fetch_and_save_def Let_def browser_defs split: if_splits)

lemma fetch_and_save_success:
  "fetch_failure (fetch E u) = None \<Longrightarrow>
   fetch_and_save E file u b =
     (Inr (),
      b\<lparr>body := body b @ [blob_anchor (issued b) file],
        objectURLs := issued b # objectURLs b,
        issued := Suc (issued b),
        timers := timers b @ [RemoveAnchorAndRevoke (blob_anchor (issued b) file) (issued b)],
        trace := trace b @ [Fetch u, CreateObjectURL (issued b),
                            Click (blob_anchor (issued b) file),
                            SetTimeout (RemoveAnchorAndRevoke (blob_anchor (issued b) file)
                                          (issued b)) 100]\<rparr>)"
  by (cases "fetch E u" rule: fetch_failure.cases)
     (auto simp: fetch_and_save_def Let_def browser_defs blob_anchor_def split: if_splits)

lemma fetch_and_save_first:
  "\<exists>rest. trace (snd (fetch_and_save E file u b)) = trace b @ Fetch u # rest"
  by (auto simp: fetch_and_save_def Let_def browser_defs split: download_splits)

lemma signed_download_first:
  "\<exists>rest. trace (snd (signed_download E file u b)) = trace b @ Fetch u # rest"
proof -
  obtain r b' where fs: "fetch_and_save E file u b = (r, b')"
    by (cases "fetch_and_save E file u b")
  obtain rest where "trace b' = trace b @ Fetch u # rest"
    using fetch_and_save_first [of E "file" u b] fs by auto
  then show ?thesis
    using fs by (auto simp: signed_download_def Let_def emit_def split: sum.splits)
qed

lemma report_key:
  "extractStoragePath (urls (service s p f w)) (file_path report_row) = Inr ''report.pdf''"
  by (simp add: example_defs)

lemma report_parse_errors:
  "parse_errors (urls (service s p f w)) (file_path report_row) = []"
  by (simp add: parse_errors_def example_defs)

lemma legacy_key:
  "extractStoragePath (urls (service s p f w)) (file_path legacy_row) =
     Inr ''https://store.example/object/public/student-files/100%''"
  by (simp add: example_defs)

lemma legacy_parse_errors:
  "parse_errors (urls (service s p f w)) (file_path legacy_row) =
     [ConsoleError ''Error parsing file path:'' URIError]"
  by (simp add: parse_errors_def example_defs)

text \<open>
  C1, as the code has it. When signing succeeds and the fetch strategy fails (the
  request is rejected, the response is not \<open>ok\<close>, or the body cannot be read), the
  handler logs the failure and opens the signed URL in a new tab at once, with
  \<open>_blank\<close> and \<open>noopener,noreferrer\<close>. No anchor is created or clicked on this
  path: after what \<open>extractStoragePath\<close> may have logged, the events of the run
  are exactly the signing request, the fetch, the log line and \<open>window.open\<close>,
  followed by one more log line if \<open>window.open\<close> throws.
\<close>

theorem fetch_failure_opens_new_tab:
  assumes "extractStoragePath (urls E) (file_path file) = Inr key"
    and "createSignedUrl E key 300 = Signed u"
    and "fetch_failure (fetch E u) = Some e"
  shows "trace (snd (handleDownload E file b)) =
           trace b @ parse_errors (urls E) (file_path file)
                   @ [CreateSignedUrl key 300, Fetch u,
                      ConsoleError ''Fetch failed, trying direct link:'' e,
                      WindowOpen u ''_blank'' ''noopener,noreferrer'']
                   @ (case window_open E u of
                        Inl thrown \<Rightarrow> [ConsoleError ''Download failed:'' thrown]
                      | Inr opened \<Rightarrow> [])"
  using assms
  by (simp add: handleDownload_def handleDownload_try_def signed_download_def
      extractStoragePath_logged_eq fetch_and_save_failure Let_def emit_def split: sum.splits)

text \<open>
  A run where the network rejects the fetch and the tab is blocked, for a row
  stored under its key and for a row stored under a URL that fails to decode.
\<close>

theorem fetch_failure_opens_new_tab_witness:
  "extractStoragePath
     (urls (service (Signed ''https://signed.example/report.pdf'') [] (FetchRejected TypeError) (Inr False)))
     (file_path report_row) = Inr ''report.pdf'' \<and>
   createSignedUrl
     (service (Signed ''https://signed.example/report.pdf'') [] (FetchRejected TypeError) (Inr False))
     ''report.pdf'' 300 = Signed ''https://signed.example/report.pdf'' \<and>
   fetch_failure (fetch
     (service (Signed ''https://signed.example/report.pdf'') [] (FetchRejected TypeError) (Inr False))
     ''https://signed.example/report.pdf'') = Some TypeError \<and>
   trace (snd (handleDownload
     (service (Signed ''https://signed.example/report.pdf'') [] (FetchRejected TypeError) (Inr False))
     report_row idle)) =
     [CreateSignedUrl ''report.pdf'' 300, Fetch ''https://signed.example/report.pdf'',
      ConsoleError ''Fetch failed, trying direct link:'' TypeError,
      WindowOpen ''https://signed.example/report.pdf'' ''_blank'' ''noopener,noreferrer''] \<and>
   extractStoragePath
     (urls (service (Signed ''https://signed.example/report.pdf'') [] (FetchRejected TypeError) (Inr False)))
     (file_path legacy_row) = Inr ''https://store.example/object/public/student-files/100%'' \<and>
   createSignedUrl
     (service (Signed ''https://signed.example/report.pdf'') [] (FetchRejected TypeError) (Inr False))
     ''https://store.example/object/public/student-files/100%'' 300
       = Signed ''https://signed.example/report.pdf'' \<and>
   trace (snd (handleDownload
     (service (Signed ''https://signed.example/report.pdf'') [] (FetchRejected TypeError) (Inr False))
     legacy_row idle)) =
     [ConsoleError ''Error parsing file path:'' URIError,
      CreateSignedUrl ''https://store.example/object/public/student-files/100%'' 300,
      Fetch ''https://signed.example/report.pdf'',
      ConsoleError ''Fetch failed, trying direct link:'' TypeError,
      WindowOpen ''https://signed.example/report.pdf'' ''_blank'' ''noopener,noreferrer'']"
proof -
  let ?E = "service (Signed ''https://signed.example/report.pdf'') [] (FetchRejected TypeError) (Inr False)"
  have k: "extractStoragePath (urls ?E) (file_path report_row) = Inr ''report.pdf''"
    by (rule report_key)
  have s: "createSignedUrl ?E ''report.pdf'' 300 = Signed ''https://signed.example/report.pdf''"
    by (simp add: service_def)
  have f: "fetch_failure (fetch ?E ''https://signed.example/report.pdf'') = Some TypeError"
    by (simp add: service_def)
  have w: "window_open ?E ''https://signed.example/report.pdf'' = Inr False"
    by (simp add: service_def)
  have k': "extractStoragePath (urls ?E) (file_path legacy_row) =
              Inr ''https://store.example/object/public/student-files/100%''"
    by (rule legacy_key)
  have s': "createSignedUrl ?E ''https://store.example/object/public/student-files/100%'' 300
              = Signed ''https://signed.example/report.pdf''"
    by (simp add: service_def)
  have t: "trace idle = []" by (simp add: idle_def)
  show ?thesis
    using fetch_failure_opens_new_tab [OF k s f, of idle]
      fetch_failure_opens_new_tab [OF k' s' f, of idle] k s f k' s'
    by (simp add: w t report_parse_errors legacy_parse_errors)
qed

text \<open>
  C1 as it is written wants the direct link with a download name tried after a
  failed fetch, and the new tab only after that. In this run the signed URL answers
  with status 403: \<open>window.open\<close> is the next thing done after the fetch, and no
  anchor is clicked.
\<close>

theorem no_direct_link_after_fetch_failure:
  "trace (snd (handleDownload
     (service (Signed ''https://signed.example/report.pdf'') [] (Response False 403 (Blob [])) (Inr True))
     report_row idle)) =
     [CreateSignedUrl ''report.pdf'' 300, Fetch ''https://signed.example/report.pdf'',
      ConsoleError ''Fetch failed, trying direct link:'' (HttpError 403),
      WindowOpen ''https://signed.example/report.pdf'' ''_blank'' ''noopener,noreferrer'']"
  by (simp add: download_defs browser_defs example_defs)

text \<open>
  C2, as the code has it. After what \<open>extractStoragePath\<close> may have logged, the
  first thing the handler does is to ask for a signed URL for the key, valid for
  300 seconds. If signing answers with an error and the public URL is not empty,
  the public URL is handed to a hidden anchor with the file name as download
  name, \<open>_blank\<close> as target and \<open>noopener noreferrer\<close>, which is clicked and
  removed 100 ms later; nothing is fetched and no tab is opened. A signed URL is
  fetched first.
\<close>

theorem public_url_is_direct_link_only:
  assumes "extractStoragePath (urls E) (file_path file) = Inr key"
  shows "(\<exists>rest. trace (snd (handleDownload E file b)) =
            trace b @ parse_errors (urls E) (file_path file) @ CreateSignedUrl key 300 # rest) \<and>
         (createSignedUrl E key 300 = SignError err \<and> getPublicUrl E key \<noteq> [] \<longrightarrow>
            trace (snd (handleDownload E file b)) =
              trace b @ parse_errors (urls E) (file_path file) @
              [CreateSignedUrl key 300,
               ConsoleError ''Error creating download URL:'' err,
               GetPublicUrl key,
               Click \<lparr>href = Remote (getPublicUrl E key), download = file_name file,
                      display = ''none'', target = Some ''_blank'',
                      rel = Some ''noopener noreferrer''\<rparr>,
               SetTimeout (RemoveAnchor
                      \<lparr>href = Remote (getPublicUrl E key), download = file_name file,
                       display = ''none'', target = Some ''_blank'',
                       rel = Some ''noopener noreferrer''\<rparr>) 100]) \<and>
         (createSignedUrl E key 300 = Signed u \<longrightarrow>
            (\<exists>rest. trace (snd (handleDownload E file b)) =
               trace b @ parse_errors (urls E) (file_path file) @
               CreateSignedUrl key 300 # Fetch u # rest))"
proof -
  let ?b0 = "b\<lparr>trace := trace b @ parse_errors (urls E) (file_path file)\<rparr>"
  let ?b1 = "emit (CreateSignedUrl key 300) ?b0"
  have signed_run: "\<exists>rest. trace (snd (handleDownload E file b)) =
               trace b @ parse_errors (urls E) (file_path file) @
               CreateSignedUrl key 300 # Fetch v # rest"
    if s: "createSignedUrl E key 300 = Signed v" for v
  proof -
    obtain r b' where sd: "signed_download E file v ?b1 = (r, b')"
      by (cases "signed_download E file v ?b1")
    obtain rest where "trace b' = trace b @ parse_errors (urls E) (file_path file) @
                         CreateSignedUrl key 300 # Fetch v # rest"
      using signed_download_first [of E "file" v ?b1] sd by (auto simp: emit_def)
    then show ?thesis
      using assms s sd
      by (auto simp: handleDownload_def handleDownload_try_def extractStoragePath_logged_eq
          Let_def emit_def split: sum.splits)
  qed
  have signed: "createSignedUrl E key 300 = Signed u \<longrightarrow>
            (\<exists>rest. trace (snd (handleDownload E file b)) =
               trace b @ parse_errors (urls E) (file_path file) @
               CreateSignedUrl key 300 # Fetch u # rest)"
    using signed_run by blast
  have public: "createSignedUrl E key 300 = SignError err \<and> getPublicUrl E key \<noteq> [] \<longrightarrow>
            trace (snd (handleDownload E file b)) =
              trace b @ parse_errors (urls E) (file_path file) @
              [CreateSignedUrl key 300,
               ConsoleError ''Error creating download URL:'' err,
               GetPublicUrl key,
               Click \<lparr>href = Remote (getPublicUrl E key), download = file_name file,
                      display = ''none'', target = Some ''_blank'',
                      rel = Some ''noopener noreferrer''\<rparr>,
               SetTimeout (RemoveAnchor
                      \<lparr>href = Remote (getPublicUrl E key), download = file_name file,
                       display = ''none'', target = Some ''_blank'',
                       rel = Some ''noopener noreferrer''\<rparr>) 100]"
    using assms
    by (simp add: handleDownload_def handleDownload_try_def extractStoragePath_logged_eq
        public_download_def Let_def browser_defs)
  have first: "\<exists>rest. trace (snd (handleDownload E file b)) =
            trace b @ parse_errors (urls E) (file_path file) @ CreateSignedUrl key 300 # rest"
  proof (cases "createSignedUrl E key 300")
    case (Signed v)
    then show ?thesis using signed_run [of v] by blast
  next
    case (SignError x)
    then show ?thesis
      using assms
      by (simp add: handleDownload_def handleDownload_try_def extractStoragePath_logged_eq
          public_download_def Let_def browser_defs)
  next
    case (SignRejected x)
    then show ?thesis
      using assms
      by (simp add: handleDownload_def handleDownload_try_def extractStoragePath_logged_eq
          Let_def browser_defs)
  qed
  from first public signed show ?thesis by blast
qed

text \<open>
  One run with a signing error and a public URL, for the row stored under a URL
  that fails to decode, and one run with a signed URL.
\<close>

theorem public_url_is_direct_link_only_witness:
  "extractStoragePath
     (urls (service (SignError (ServiceError ''Object not found'')) ''https://public.example/budget.pdf''
              (Response True 200 (Blob ''%PDF'')) (Inr True)))
     (file_path legacy_row) = Inr ''https://store.example/object/public/student-files/100%'' \<and>
   createSignedUrl
     (service (SignError (ServiceError ''Object not found'')) ''https://public.example/budget.pdf''
        (Response True 200 (Blob ''%PDF'')) (Inr True))
     ''https://store.example/object/public/student-files/100%'' 300
       = SignError (ServiceError ''Object not found'') \<and>
   getPublicUrl
     (service (SignError (ServiceError ''Object not found'')) ''https://public.example/budget.pdf''
        (Response True 200 (Blob ''%PDF'')) (Inr True))
     ''https://store.example/object/public/student-files/100%'' \<noteq> [] \<and>
   trace (snd (handleDownload
     (service (SignError (ServiceError ''Object not found'')) ''https://public.example/budget.pdf''
        (Response True 200 (Blob ''%PDF'')) (Inr True))
     legacy_row idle)) =
     [ConsoleError ''Error parsing file path:'' URIError,
      CreateSignedUrl ''https://store.example/object/public/student-files/100%'' 300,
      ConsoleError ''Error creating download URL:'' (ServiceError ''Object not found''),
      GetPublicUrl ''https://store.example/object/public/student-files/100%'',
      Click \<lparr>href = Remote ''https://public.example/budget.pdf'', download = ''budget.pdf'',
             display = ''none'', target = Some ''_blank'', rel = Some ''noopener noreferrer''\<rparr>,
      SetTimeout (RemoveAnchor
            \<lparr>href = Remote ''https://public.example/budget.pdf'', download = ''budget.pdf'',
             display = ''none'', target = Some ''_blank'', rel = Some ''noopener noreferrer''\<rparr>) 100] \<and>
   extractStoragePath
     (urls (service (Signed ''https://signed.example/report.pdf'') ''https://public.example/report.pdf''
        (Response True 200 (Blob ''%PDF'')) (Inr True)))
     (file_path report_row) = Inr ''report.pdf'' \<and>
   createSignedUrl
     (service (Signed ''https://signed.example/report.pdf'') ''https://public.example/report.pdf''
        (Response True 200 (Blob ''%PDF'')) (Inr True))
     ''report.pdf'' 300 = Signed ''https://signed.example/report.pdf'' \<and>
   (\<exists>rest. trace (snd (handleDownload
     (service (Signed ''https://signed.example/report.pdf'') ''https://public.example/report.pdf''
        (Response True 200 (Blob ''%PDF'')) (Inr True))
     report_row idle)) =
     CreateSignedUrl ''report.pdf'' 300 # Fetch ''https://signed.example/report.pdf'' # rest)"
proof -
  let ?P = "service (SignError (ServiceError ''Object not found'')) ''https://public.example/budget.pdf''
              (Response True 200 (Blob ''%PDF'')) (Inr True)"
  let ?S = "service (Signed ''https://signed.example/report.pdf'') ''https://public.example/report.pdf''
              (Response True 200 (Blob ''%PDF'')) (Inr True)"
  have kp: "extractStoragePath (urls ?P) (file_path legacy_row) =
              Inr ''https://store.example/object/public/student-files/100%''"
    by (rule legacy_key)
  have ks: "extractStoragePath (urls ?S) (file_path report_row) = Inr ''report.pdf''"
    by (rule report_key)
  have sp: "createSignedUrl ?P ''https://store.example/object/public/student-files/100%'' 300
              = SignError (ServiceError ''Object not found'')"
    by (simp add: service_def)
  have gp: "getPublicUrl ?P ''https://store.example/object/public/student-files/100%''
              = ''https://public.example/budget.pdf''"
    by (simp add: service_def)
  have ss: "createSignedUrl ?S ''report.pdf'' 300 = Signed ''https://signed.example/report.pdf''"
    by (simp add: service_def)
  have n: "file_name legacy_row = ''budget.pdf''" by (simp add: legacy_row_def)
  have t: "trace idle = []" by (simp add: idle_def)
  show ?thesis
    using public_url_is_direct_link_only [OF kp, of idle "ServiceError ''Object not found''"]
      public_url_is_direct_link_only [OF ks, of idle _ "''https://signed.example/report.pdf''"]
      kp ks sp ss
    by (simp add: gp n t report_parse_errors legacy_parse_errors)
qed

text \<open>
  C2 as it is written says that delivery is the same for a public URL and for a
  signed URL. Two runs that differ only in whether the same URL comes from the
  public lookup or from signing: the first clicks a link to the URL, the second
  fetches the URL and clicks a link to an object URL.
\<close>

theorem public_and_signed_delivery_differ:
  "delivery (trace (snd (handleDownload
     (service (SignError (ServiceError ''Object not found'')) ''https://files.example/report.pdf''
        (Response True 200 (Blob ''%PDF'')) (Inr True))
     report_row idle))) =
     [Click \<lparr>href = Remote ''https://files.example/report.pdf'', download = ''report.pdf'',
             display = ''none'', target = Some ''_blank'', rel = Some ''noopener noreferrer''\<rparr>,
      SetTimeout (RemoveAnchor
            \<lparr>href = Remote ''https://files.example/report.pdf'', download = ''report.pdf'',
             display = ''none'', target = Some ''_blank'', rel = Some ''noopener noreferrer''\<rparr>) 100] \<and>
   delivery (trace (snd (handleDownload
     (service (Signed ''https://files.example/report.pdf'') ''https://files.example/report.pdf''
        (Response True 200 (Blob ''%PDF'')) (Inr True))
     report_row idle))) =
     [Fetch ''https://files.example/report.pdf'',
      CreateObjectURL 0,
      Click \<lparr>href = ObjectURL 0, download = ''report.pdf'',
             display = ''none'', target = None, rel = None\<rparr>,
      SetTimeout (RemoveAnchorAndRevoke
            \<lparr>href = ObjectURL 0, download = ''report.pdf'',
             display = ''none'', target = None, rel = None\<rparr> 0) 100]"
  by (simp add: download_defs browser_defs example_defs delivery_def)

text \<open>
  C3, as the code has it. The promise of the handler is fulfilled in every run: no
  exception reaches the caller, and no failure is reported to the caller either.
  Whatever leaves the outer \<open>try\<close> block is logged as \<open>Download failed:\<close> and
  nothing more is done. In particular, after what \<open>extractStoragePath\<close> may have
  logged: when signing answers with an error and the public URL is empty, the
  handler returns after the log line of the signing error and the public lookup;
  when the promise of the signing request rejects, the rejection is logged; when
  the fetch strategy fails and \<open>window.open\<close> throws, that exception is logged.
\<close>

theorem handleDownload_absorbs_failures:
  "fst (handleDownload E file b) = Fulfilled \<and>
   (fst (handleDownload_try E file b) = Inl thrown
      \<longrightarrow> trace (snd (handleDownload E file b)) =
            trace (snd (handleDownload_try E file b)) @ [ConsoleError ''Download failed:'' thrown]) \<and>
   (fst (handleDownload_try E file b) = Inr ()
      \<longrightarrow> snd (handleDownload E file b) = snd (handleDownload_try E file b)) \<and>
   (extractStoragePath (urls E) (file_path file) = Inr key \<and>
    createSignedUrl E key 300 = SignError err \<and> getPublicUrl E key = []
      \<longrightarrow> trace (snd (handleDownload E file b)) =
            trace b @ parse_errors (urls E) (file_path file) @
            [CreateSignedUrl key 300,
             ConsoleError ''Error creating download URL:'' err,
             GetPublicUrl key]) \<and>
   (extractStoragePath (urls E) (file_path file) = Inr key \<and>
    createSignedUrl E key 300 = SignRejected rejected
      \<longrightarrow> trace (snd (handleDownload E file b)) =
            trace b @ parse_errors (urls E) (file_path file) @
            [CreateSignedUrl key 300,
             ConsoleError ''Download failed:'' rejected]) \<and>
   (extractStoragePath (urls E) (file_path file) = Inr key \<and>
    createSignedUrl E key 300 = Signed u \<and> fetch_failure (fetch E u) = Some e \<and>
    window_open E u = Inl thrown
      \<longrightarrow> trace (snd (handleDownload E file b)) =
            trace b @ parse_errors (urls E) (file_path file) @
            [CreateSignedUrl key 300, Fetch u,
             ConsoleError ''Fetch failed, trying direct link:'' e,
             WindowOpen u ''_blank'' ''noopener,noreferrer'',
             ConsoleError ''Download failed:'' thrown])"
proof -
  have fulfilled: "fst (handleDownload E file b) = Fulfilled"
    by (simp add: handleDownload_def split: prod.splits sum.splits)
  have caught: "fst (handleDownload_try E file b) = Inl thrown
      \<longrightarrow> trace (snd (handleDownload E file b)) =
            trace (snd (handleDownload_try E file b)) @ [ConsoleError ''Download failed:'' thrown]"
    by (cases "handleDownload_try E file b") (auto simp: handleDownload_def emit_def)
  have returned: "fst (handleDownload_try E file b) = Inr ()
      \<longrightarrow> snd (handleDownload E file b) = snd (handleDownload_try E file b)"
    by (cases "handleDownload_try E file b") (auto simp: handleDownload_def)
  have denied: "extractStoragePath (urls E) (file_path file) = Inr key \<and>
    createSignedUrl E key 300 = SignError err \<and> getPublicUrl E key = []
      \<longrightarrow> trace (snd (handleDownload E file b)) =
            trace b @ parse_errors (urls E) (file_path file) @
            [CreateSignedUrl key 300,
             ConsoleError ''Error creating download URL:'' err,
             GetPublicUrl key]"
    by (simp add: handleDownload_def handleDownload_try_def extractStoragePath_logged_eq
        public_download_def Let_def emit_def)
  have rejected: "extractStoragePath (urls E) (file_path file) = Inr key \<and>
    createSignedUrl E key 300 = SignRejected rejected
      \<longrightarrow> trace (snd (handleDownload E file b)) =
            trace b @ parse_errors (urls E) (file_path file) @
            [CreateSignedUrl key 300,
             ConsoleError ''Download failed:'' rejected]"
    by (simp add: handleDownload_def handleDownload_try_def extractStoragePath_logged_eq
        Let_def emit_def)
  have exhausted: "extractStoragePath (urls E) (file_path file) = Inr key \<and>
    createSignedUrl E key 300 = Signed u \<and> fetch_failure (fetch E u) = Some e \<and>
    window_open E u = Inl thrown
      \<longrightarrow> trace (snd (handleDownload E file b)) =
            trace b @ parse_errors (urls E) (file_path file) @
            [CreateSignedUrl key 300, Fetch u,
             ConsoleError ''Fetch failed, trying direct link:'' e,
             WindowOpen u ''_blank'' ''noopener,noreferrer'',
             ConsoleError ''Download failed:'' thrown]"
    by (simp add: handleDownload_def handleDownload_try_def extractStoragePath_logged_eq
        signed_download_def fetch_and_save_failure Let_def emit_def)
  from fulfilled caught returned denied rejected exhausted show ?thesis by blast
qed

text \<open>
  A run where access is denied, for the row stored under a URL that fails to
  decode; a run where the signing request rejects; a run where every strategy
  fails.
\<close>

theorem handleDownload_absorbs_failures_witness:
  "extractStoragePath
     (urls (service (SignError (ServiceError ''Unauthorized'')) [] (FetchRejected TypeError) (Inr False)))
     (file_path legacy_row) = Inr ''https://store.example/object/public/student-files/100%'' \<and>
   createSignedUrl (service (SignError (ServiceError ''Unauthorized'')) [] (FetchRejected TypeError) (Inr False))
     ''https://store.example/object/public/student-files/100%'' 300
       = SignError (ServiceError ''Unauthorized'') \<and>
   getPublicUrl (service (SignError (ServiceError ''Unauthorized'')) [] (FetchRejected TypeError) (Inr False))
     ''https://store.example/object/public/student-files/100%'' = [] \<and>
   fst (handleDownload
     (service (SignError (ServiceError ''Unauthorized'')) [] (FetchRejected TypeError) (Inr False))
     legacy_row idle) = Fulfilled \<and>
   trace (snd (handleDownload
     (service (SignError (ServiceError ''Unauthorized'')) [] (FetchRejected TypeError) (Inr False))
     legacy_row idle)) =
     [ConsoleError ''Error parsing file path:'' URIError,
      CreateSignedUrl ''https://store.example/object/public/student-files/100%'' 300,
      ConsoleError ''Error creating download URL:'' (ServiceError ''Unauthorized''),
      GetPublicUrl ''https://store.example/object/public/student-files/100%''] \<and>
   createSignedUrl
     (service (SignRejected (ServiceError ''offline'')) [] (FetchRejected TypeError) (Inr False))
     ''report.pdf'' 300 = SignRejected (ServiceError ''offline'') \<and>
   fst (handleDownload_try
     (service (SignRejected (ServiceError ''offline'')) [] (FetchRejected TypeError) (Inr False))
     report_row idle) = Inl (ServiceError ''offline'') \<and>
   fst (handleDownload
     (service (SignRejected (ServiceError ''offline'')) [] (FetchRejected TypeError) (Inr False))
     report_row idle) = Fulfilled \<and>
   trace (snd (handleDownload
     (service (SignRejected (ServiceError ''offline'')) [] (FetchRejected TypeError) (Inr False))
     report_row idle)) =
     [CreateSignedUrl ''report.pdf'' 300,
      ConsoleError ''Download failed:'' (ServiceError ''offline'')] \<and>
   createSignedUrl
     (service (Signed ''https://signed.example/report.pdf'') [] (FetchRejected TypeError) (Inl TypeError))
     ''report.pdf'' 300 = Signed ''https://signed.example/report.pdf'' \<and>
   fetch_failure (fetch
     (service (Signed ''https://signed.example/report.pdf'') [] (FetchRejected TypeError) (Inl TypeError))
     ''https://signed.example/report.pdf'') = Some TypeError \<and>
   window_open
     (service (Signed ''https://signed.example/report.pdf'') [] (FetchRejected TypeError) (Inl TypeError))
     ''https://signed.example/report.pdf'' = Inl TypeError \<and>
   fst (handleDownload
     (service (Signed ''https://signed.example/report.pdf'') [] (FetchRejected TypeError) (Inl TypeError))
     report_row idle) = Fulfilled \<and>
   trace (snd (handleDownload
     (service (Signed ''https://signed.example/report.pdf'') [] (FetchRejected TypeError) (Inl TypeError))
     report_row idle)) =
     [CreateSignedUrl ''report.pdf'' 300, Fetch ''https://signed.example/report.pdf'',
      ConsoleError ''Fetch failed, trying direct link:'' TypeError,
      WindowOpen ''https://signed.example/report.pdf'' ''_blank'' ''noopener,noreferrer'',
      ConsoleError ''Download failed:'' TypeError]"
proof -
  let ?D = "service (SignError (ServiceError ''Unauthorized'')) [] (FetchRejected TypeError) (Inr False)"
  let ?R = "service (SignRejected (ServiceError ''offline'')) [] (FetchRejected TypeError) (Inr False)"
  let ?X = "service (Signed ''https://signed.example/report.pdf'') [] (FetchRejected TypeError) (Inl TypeError)"
  have kd: "extractStoragePath (urls ?D) (file_path legacy_row) =
              Inr ''https://store.example/object/public/student-files/100%''"
    by (rule legacy_key)
  have kr: "extractStoragePath (urls ?R) (file_path report_row) = Inr ''report.pdf''"
    by (rule report_key)
  have kx: "extractStoragePath (urls ?X) (file_path report_row) = Inr ''report.pdf''"
    by (rule report_key)
  have sd: "createSignedUrl ?D ''https://store.example/object/public/student-files/100%'' 300
              = SignError (ServiceError ''Unauthorized'')"
    by (simp add: service_def)
  have gd: "getPublicUrl ?D ''https://store.example/object/public/student-files/100%'' = []"
    by (simp add: service_def)
  have sr: "createSignedUrl ?R ''report.pdf'' 300 = SignRejected (ServiceError ''offline'')"
    by (simp add: service_def)
  have tr: "fst (handleDownload_try ?R report_row idle) = Inl (ServiceError ''offline'')"
    by (simp add: handleDownload_try_def extractStoragePath_logged_eq report_key sr Let_def)
  have sx: "createSignedUrl ?X ''report.pdf'' 300 = Signed ''https://signed.example/report.pdf''"
    by (simp add: service_def)
  have fx: "fetch_failure (fetch ?X ''https://signed.example/report.pdf'') = Some TypeError"
    by (simp add: service_def)
  have wx: "window_open ?X ''https://signed.example/report.pdf'' = Inl TypeError"
    by (simp add: service_def)
  have t: "trace idle = []" by (simp add: idle_def)
  note D = handleDownload_absorbs_failures
        [of ?D legacy_row idle _ "''https://store.example/object/public/student-files/100%''"
            "ServiceError ''Unauthorized''"]
  note R = handleDownload_absorbs_failures
        [of ?R report_row idle "ServiceError ''offline''" "''report.pdf''" _
            "ServiceError ''offline''"]
  note X = handleDownload_absorbs_failures
        [of ?X report_row idle TypeError "''report.pdf''" _ _
            "''https://signed.example/report.pdf''" TypeError]
  have d1: "fst (handleDownload ?D legacy_row idle) = Fulfilled"
    using D by blast
  have d2: "trace (snd (handleDownload ?D legacy_row idle)) =
     [ConsoleError ''Error parsing file path:'' URIError,
      CreateSignedUrl ''https://store.example/object/public/student-files/100%'' 300,
      ConsoleError ''Error creating download URL:'' (ServiceError ''Unauthorized''),
      GetPublicUrl ''https://store.example/object/public/student-files/100%'']"
  proof -
    have "trace (snd (handleDownload ?D legacy_row idle)) =
            trace idle @ parse_errors (urls ?D) (file_path legacy_row) @
            [CreateSignedUrl ''https://store.example/object/public/student-files/100%'' 300,
             ConsoleError ''Error creating download URL:'' (ServiceError ''Unauthorized''),
             GetPublicUrl ''https://store.example/object/public/student-files/100%'']"
      using D kd sd gd by blast
    then show ?thesis by (simp add: t legacy_parse_errors)
  qed
  have r1: "fst (handleDownload ?R report_row idle) = Fulfilled"
    using R by blast
  have r2: "trace (snd (handleDownload ?R report_row idle)) =
     [CreateSignedUrl ''report.pdf'' 300,
      ConsoleError ''Download failed:'' (ServiceError ''offline'')]"
  proof -
    have "trace (snd (handleDownload ?R report_row idle)) =
            trace idle @ parse_errors (urls ?R) (file_path report_row) @
            [CreateSignedUrl ''report.pdf'' 300,
             ConsoleError ''Download failed:'' (ServiceError ''offline'')]"
      using R kr sr by blast
    then show ?thesis by (simp add: t report_parse_errors)
  qed
  have x1: "fst (handleDownload ?X report_row idle) = Fulfilled"
    using X by blast
  have x2: "trace (snd (handleDownload ?X report_row idle)) =
     [CreateSignedUrl ''report.pdf'' 300, Fetch ''https://signed.example/report.pdf'',
      ConsoleError ''Fetch failed, trying direct link:'' TypeError,
      WindowOpen ''https://signed.example/report.pdf'' ''_blank'' ''noopener,noreferrer'',
      ConsoleError ''Download failed:'' TypeError]"
  proof -
    have "trace (snd (handleDownload ?X report_row idle)) =
            trace idle @ parse_errors (urls ?X) (file_path report_row) @
            [CreateSignedUrl ''report.pdf'' 300, Fetch ''https://signed.example/report.pdf'',
             ConsoleError ''Fetch failed, trying direct link:'' TypeError,
             WindowOpen ''https://signed.example/report.pdf'' ''_blank'' ''noopener,noreferrer'',
             ConsoleError ''Download failed:'' TypeError]"
      using X kx sx fx wx by blast
    then show ?thesis by (simp add: t report_parse_errors)
  qed
  from kd sd gd d1 d2 sr tr r1 r2 sx fx wx x1 x2 show ?thesis by blast
qed

text \<open>
  C3 as it is written has the two terminal failures reported to the caller. The
  handler settles in the same way when access is denied (the first run, shown with
  its whole final state), when the fetch fails with status 500 and \<open>window.open\<close>
  throws, and when the download succeeds.
\<close>

theorem access_denied_is_not_reported:
  "handleDownload
     (service (SignError (ServiceError ''Forbidden'')) [] (Response True 200 (Blob ''%PDF'')) (Inr True))
     report_row idle =
     (Fulfilled,
      idle\<lparr>trace := [CreateSignedUrl ''report.pdf'' 300,
                     ConsoleError ''Error creating download URL:'' (ServiceError ''Forbidden''),
                     GetPublicUrl ''report.pdf'']\<rparr>) \<and>
   fst (handleDownload
     (service (Signed ''https://signed.example/report.pdf'') [] (Response False 500 (Blob [])) (Inl TypeError))
     report_row idle) = Fulfilled \<and>
   fst (handleDownload
     (service (Signed ''https://signed.example/report.pdf'') [] (Response True 200 (Blob ''%PDF'')) (Inr True))
     report_row idle) = Fulfilled"
  by (simp add: download_defs browser_defs example_defs)

text \<open>
  C4, as the code has it, for any state of the browser at the start, other
  downloads in flight included.
  \<^item> An object URL is created only when the fetch strategy succeeds. In every other
    run (a failed fetch, an exception, an early return) the pending object URLs
    at the return are those at the start, so a run in which every strategy fails
    leaves the count as it was.
  \<^item> When the fetch strategy succeeds, the new object URL is pending at the
    return, its anchor is in the body, and exactly one timer has been added,
    which removes that anchor and revokes that URL.
  \<^item> That timer, run in any later state in which its anchor is still a child of
    the body, revokes its own URL and no other.
  \<^item> So when the timer runs on the state returned, the pending object URLs are
    again those at the start, the new URL being none of them.
\<close>

theorem object_url_lifecycle:
  "((\<forall>key u. extractStoragePath (urls E) (file_path file) = Inr key \<and>
              createSignedUrl E key 300 = Signed u
                \<longrightarrow> fetch_failure (fetch E u) \<noteq> None)
      \<longrightarrow> objectURLs (snd (handleDownload E file b)) = objectURLs b) \<and>
   (extractStoragePath (urls E) (file_path file) = Inr key \<and>
    createSignedUrl E key 300 = Signed u \<and> fetch_failure (fetch E u) = None
      \<longrightarrow> objectURLs (snd (handleDownload E file b)) = issued b # objectURLs b \<and>
          timers (snd (handleDownload E file b)) =
            timers b @ [RemoveAnchorAndRevoke (blob_anchor (issued b) file) (issued b)] \<and>
          blob_anchor (issued b) file \<in> set (body (snd (handleDownload E file b)))) \<and>
   (a \<in> set (body c)
      \<longrightarrow> objectURLs (run_timer (RemoveAnchorAndRevoke a blobUrl) c) =
            removeAll blobUrl (objectURLs c)) \<and>
   (extractStoragePath (urls E) (file_path file) = Inr key \<and>
    createSignedUrl E key 300 = Signed u \<and> fetch_failure (fetch E u) = None \<and>
    issued b \<notin> set (objectURLs b)
      \<longrightarrow> objectURLs (run_timer (RemoveAnchorAndRevoke (blob_anchor (issued b) file) (issued b))
                          (snd (handleDownload E file b))) = objectURLs b)"
proof -
  have unchanged: "(\<forall>key u. extractStoragePath (urls E) (file_path file) = Inr key \<and>
              createSignedUrl E key 300 = Signed u
                \<longrightarrow> fetch_failure (fetch E u) \<noteq> None)
      \<longrightarrow> objectURLs (snd (handleDownload E file b)) = objectURLs b"
    by (auto simp: handleDownload_def handleDownload_try_def signed_download_def
        public_download_def fetch_and_save_def extractStoragePath_logged_eq Let_def browser_defs
        split: download_splits)
  have success: "objectURLs (snd (handleDownload E file b)) = issued b # objectURLs b \<and>
          timers (snd (handleDownload E file b)) =
            timers b @ [RemoveAnchorAndRevoke (blob_anchor (issued b) file) (issued b)] \<and>
          blob_anchor (issued b) file \<in> set (body (snd (handleDownload E file b)))"
    if "extractStoragePath (urls E) (file_path file) = Inr key"
      and "createSignedUrl E key 300 = Signed u" and "fetch_failure (fetch E u) = None"
    using that
    by (simp add: handleDownload_def handleDownload_try_def signed_download_def
        extractStoragePath_logged_eq fetch_and_save_success Let_def emit_def)
  have timer: "a \<in> set (body c)
      \<longrightarrow> objectURLs (run_timer (RemoveAnchorAndRevoke a blobUrl) c) =
            removeAll blobUrl (objectURLs c)"
    by (simp add: removeChild_def revokeObjectURL_def)
  have released: "objectURLs (run_timer (RemoveAnchorAndRevoke (blob_anchor (issued b) file) (issued b))
                          (snd (handleDownload E file b))) = objectURLs b"
    if "extractStoragePath (urls E) (file_path file) = Inr key"
      and "createSignedUrl E key 300 = Signed u" and "fetch_failure (fetch E u) = None"
      and "issued b \<notin> set (objectURLs b)"
    using success [OF that(1,2,3)] that(4)
    by (simp add: removeChild_def revokeObjectURL_def)
  from unchanged success timer released show ?thesis by blast
qed

text \<open>
  A run where the fetch is rejected and the tab is blocked, and a successful run
  with its timer.
\<close>

theorem object_url_lifecycle_witness:
  "fetch_failure (fetch
     (service (Signed ''https://signed.example/report.pdf'') [] (FetchRejected TypeError) (Inr False))
     ''https://signed.example/report.pdf'') \<noteq> None \<and>
   objectURLs (snd (handleDownload
     (service (Signed ''https://signed.example/report.pdf'') [] (FetchRejected TypeError) (Inr False))
     report_row idle)) = [] \<and>
   fetch_failure (fetch
     (service (Signed ''https://signed.example/report.pdf'') [] (Response True 200 (Blob ''%PDF'')) (Inr True))
     ''https://signed.example/report.pdf'') = None \<and>
   issued idle \<notin> set (objectURLs idle) \<and>
   objectURLs (snd (handleDownload
     (service (Signed ''https://signed.example/report.pdf'') [] (Response True 200 (Blob ''%PDF'')) (Inr True))
     report_row idle)) = [0] \<and>
   timers (snd (handleDownload
     (service (Signed ''https://signed.example/report.pdf'') [] (Response True 200 (Blob ''%PDF'')) (Inr True))
     report_row idle)) = [RemoveAnchorAndRevoke (blob_anchor 0 report_row) 0] \<and>
   blob_anchor 0 report_row \<in> set (body (snd (handleDownload
     (service (Signed ''https://signed.example/report.pdf'') [] (Response True 200 (Blob ''%PDF'')) (Inr True))
     report_row idle))) \<and>
   objectURLs (run_timer (RemoveAnchorAndRevoke (blob_anchor 0 report_row) 0)
     (snd (handleDownload
       (service (Signed ''https://signed.example/report.pdf'') [] (Response True 200 (Blob ''%PDF'')) (Inr True))
       report_row idle))) = []"
proof -
  let ?F = "service (Signed ''https://signed.example/report.pdf'') [] (FetchRejected TypeError) (Inr False)"
  let ?S = "service (Signed ''https://signed.example/report.pdf'') [] (Response True 200 (Blob ''%PDF'')) (Inr True)"
  have f: "\<forall>key u. extractStoragePath (urls ?F) (file_path report_row) = Inr key \<and>
                   createSignedUrl ?F key 300 = Signed u
                     \<longrightarrow> fetch_failure (fetch ?F u) \<noteq> None"
    by (simp add: service_def)
  have f': "fetch_failure (fetch ?F ''https://signed.example/report.pdf'') \<noteq> None"
    by (simp add: service_def)
  have k: "extractStoragePath (urls ?S) (file_path report_row) = Inr ''report.pdf''"
    by (rule report_key)
  have s: "createSignedUrl ?S ''report.pdf'' 300 = Signed ''https://signed.example/report.pdf''"
    by (simp add: service_def)
  have ok: "fetch_failure (fetch ?S ''https://signed.example/report.pdf'') = None"
    by (simp add: service_def)
  have i: "issued idle = 0" "objectURLs idle = []" "timers idle = []"
    by (simp_all add: idle_def)
  show ?thesis
    using object_url_lifecycle [of ?F report_row idle]
      object_url_lifecycle [of ?S report_row idle "''report.pdf''"
        "''https://signed.example/report.pdf''"
        "blob_anchor 0 report_row"
        "snd (handleDownload ?S report_row idle)" 0]
      f f' k s ok
    by (simp add: i)
qed

text \<open>
  C4 as it is written has the object URL released on every exit path. At the
  return of a successful run the object URL is still pending. If the anchor is
  no longer in the body when the timer runs, \<open>removeChild\<close> throws before
  \<open>revokeObjectURL\<close> is reached and the object URL stays pending.
\<close>

theorem object_url_pending_at_return:
  "objectURLs (snd (handleDownload
     (service (Signed ''https://signed.example/report.pdf'') [] (Response True 200 (Blob ''%PDF'')) (Inr True))
     report_row idle)) = [0] \<and>
   objectURLs (run_timers ((snd (handleDownload
     (service (Signed ''https://signed.example/report.pdf'') [] (Response True 200 (Blob ''%PDF'')) (Inr True))
     report_row idle))\<lparr>body := []\<rparr>)) = [0]"
  by (simp add: download_defs browser_defs example_defs run_timers_def removeChild_def)

end
